theory Spec2Isabelle
  imports Complex_Main "HOL-Library.Multiset" "HOL-Library.Log_Nat"
begin

section \<open>Numbers\<close>

text \<open>
  The C++ type \<open>double\<close> is read in two ways.

  In the exact reading it is \<^typ>\<open>real\<close>: a formula is the exact arithmetic of the
  source expression, without rounding and without the values \<open>inf\<close> and \<open>NaN\<close>.
  Where the source divides, HOL's \<open>x / 0 = 0\<close> is not what IEEE arithmetic gives, so
  statements that depend on a quotient carry the side condition that the divisor is not
  zero. The constant \<open>pi\<close> that the contact model's constructor uses is declared
  outside these sources; it is read as the circle constant \<^term>\<open>pi\<close>. The sign and
  the stiffness of the contact model and the force kernel are stated in this reading.

  In the binary64 reading it is the type \<open>double\<close> below: the finite numbers of IEEE
  754 binary64, the two infinities and \<open>NaN\<close>, with every operation rounded to
  nearest, ties to even. Statements about the exact equality of two expressions that
  round differently, and about an absolute tolerance, are made in this reading.
\<close>

subsection \<open>Rounding to binary64\<close>

text \<open>
  Rounding a real number to the nearest integer, ties to the even one.
\<close>

definition rne :: "real \<Rightarrow> int" where
  "rne y = (let f = \<lfloor>y\<rfloor>; d = y - of_int f
            in if d < 1 / 2 then f else if 1 / 2 < d then f + 1
               else if even f then f else f + 1)"

text \<open>
  The binary exponent of a number other than zero, the integer \<open>e\<close> with
  \<open>2\<^sup>e \<le> \<bar>x\<bar> < 2\<^sup>e\<^sup>+\<^sup>1\<close>, computed from the bit length of an integer.
\<close>

definition exponent :: "real \<Rightarrow> int" where
  "exponent x = (if 1 \<le> \<bar>x\<bar> then bitlen \<lfloor>\<bar>x\<bar>\<rfloor> - 1 else - bitlen (\<lceil>1 / \<bar>x\<bar>\<rceil> - 1))"

text \<open>
  The spacing of the binary64 numbers around \<open>x\<close>: 52 fraction bits below the
  exponent, and the spacing of the subnormal numbers below the smallest normal exponent
  \<open>- 1022\<close>.
\<close>

definition quantum :: "real \<Rightarrow> real" where
  "quantum x = 2 powi (max (exponent x) (- 1022) - 52)"

definition round_to_double :: "real \<Rightarrow> real" where
  "round_to_double x = (if x = 0 then 0 else of_int (rne (x / quantum x)) * quantum x)"

text \<open>The largest finite binary64 number.\<close>

definition max_double :: real where
  "max_double = (2 ^ 53 - 1) * 2 ^ 971"

text \<open>
  The values of a \<open>double\<close>. The two zeros of binary64 are identified: no statement
  below reads the sign of a zero, and a division of a number other than zero by zero
  gives the infinity with the sign of the dividend.
\<close>

datatype double = Finite real | PlusInfinity | MinusInfinity | NaN

text \<open>
  The result of an operation whose exact result is \<open>x\<close>: the nearest binary64 number,
  or an infinity when that lies beyond the largest finite number.
\<close>

definition rnd :: "real \<Rightarrow> double" where
  "rnd x = (let y = round_to_double x
            in if max_double < y then PlusInfinity
               else if y < - max_double then MinusInfinity
               else Finite y)"

fun d_neg :: "double \<Rightarrow> double" where
  "d_neg (Finite x) = Finite (- x)"
| "d_neg PlusInfinity = MinusInfinity"
| "d_neg MinusInfinity = PlusInfinity"
| "d_neg NaN = NaN"

fun d_abs :: "double \<Rightarrow> double" where
  "d_abs (Finite x) = Finite \<bar>x\<bar>"
| "d_abs PlusInfinity = PlusInfinity"
| "d_abs MinusInfinity = PlusInfinity"
| "d_abs NaN = NaN"

fun d_add :: "double \<Rightarrow> double \<Rightarrow> double" where
  "d_add (Finite x) (Finite y) = rnd (x + y)"
| "d_add (Finite x) PlusInfinity = PlusInfinity"
| "d_add (Finite x) MinusInfinity = MinusInfinity"
| "d_add PlusInfinity (Finite y) = PlusInfinity"
| "d_add PlusInfinity PlusInfinity = PlusInfinity"
| "d_add PlusInfinity MinusInfinity = NaN"
| "d_add MinusInfinity (Finite y) = MinusInfinity"
| "d_add MinusInfinity PlusInfinity = NaN"
| "d_add MinusInfinity MinusInfinity = MinusInfinity"
| "d_add NaN y = NaN"
| "d_add x NaN = NaN"

definition d_sub :: "double \<Rightarrow> double \<Rightarrow> double" where
  "d_sub x y = d_add x (d_neg y)"

fun d_mul :: "double \<Rightarrow> double \<Rightarrow> double" where
  "d_mul (Finite x) (Finite y) = rnd (x * y)"
| "d_mul (Finite x) PlusInfinity =
     (if x = 0 then NaN else if 0 < x then PlusInfinity else MinusInfinity)"
| "d_mul (Finite x) MinusInfinity =
     (if x = 0 then NaN else if 0 < x then MinusInfinity else PlusInfinity)"
| "d_mul PlusInfinity (Finite y) =
     (if y = 0 then NaN else if 0 < y then PlusInfinity else MinusInfinity)"
| "d_mul MinusInfinity (Finite y) =
     (if y = 0 then NaN else if 0 < y then MinusInfinity else PlusInfinity)"
| "d_mul PlusInfinity PlusInfinity = PlusInfinity"
| "d_mul PlusInfinity MinusInfinity = MinusInfinity"
| "d_mul MinusInfinity PlusInfinity = MinusInfinity"
| "d_mul MinusInfinity MinusInfinity = PlusInfinity"
| "d_mul NaN y = NaN"
| "d_mul x NaN = NaN"

fun d_div :: "double \<Rightarrow> double \<Rightarrow> double" where
  "d_div (Finite x) (Finite y) =
     (if y = 0 then (if x = 0 then NaN else if 0 < x then PlusInfinity else MinusInfinity)
      else rnd (x / y))"
| "d_div (Finite x) PlusInfinity = Finite 0"
| "d_div (Finite x) MinusInfinity = Finite 0"
| "d_div PlusInfinity (Finite y) = (if 0 \<le> y then PlusInfinity else MinusInfinity)"
| "d_div MinusInfinity (Finite y) = (if 0 \<le> y then MinusInfinity else PlusInfinity)"
| "d_div PlusInfinity PlusInfinity = NaN"
| "d_div PlusInfinity MinusInfinity = NaN"
| "d_div MinusInfinity PlusInfinity = NaN"
| "d_div MinusInfinity MinusInfinity = NaN"
| "d_div NaN y = NaN"
| "d_div x NaN = NaN"

text \<open>The comparison \<open>x <= y\<close>, which is false when an operand is \<open>NaN\<close>.\<close>

fun d_le :: "double \<Rightarrow> double \<Rightarrow> bool" where
  "d_le (Finite x) (Finite y) \<longleftrightarrow> x \<le> y"
| "d_le (Finite x) PlusInfinity \<longleftrightarrow> True"
| "d_le (Finite x) MinusInfinity \<longleftrightarrow> False"
| "d_le PlusInfinity (Finite y) \<longleftrightarrow> False"
| "d_le PlusInfinity PlusInfinity \<longleftrightarrow> True"
| "d_le PlusInfinity MinusInfinity \<longleftrightarrow> False"
| "d_le MinusInfinity (Finite y) \<longleftrightarrow> True"
| "d_le MinusInfinity PlusInfinity \<longleftrightarrow> True"
| "d_le MinusInfinity MinusInfinity \<longleftrightarrow> True"
| "d_le NaN y \<longleftrightarrow> False"
| "d_le x NaN \<longleftrightarrow> False"

text \<open>The number a finite \<open>double\<close> stands for.\<close>

fun value_of :: "double \<Rightarrow> real" where
  "value_of (Finite x) = x"
| "value_of PlusInfinity = 0"
| "value_of MinusInfinity = 0"
| "value_of NaN = 0"

text \<open>
  The constant \<open>pi\<close> in the binary64 reading: the binary64 number nearest to the circle
  constant, \<open>3.141592653589793\<close>.
\<close>

definition pi_double :: double where
  "pi_double = Finite (884279719003555 / 2 ^ 48)"

text \<open>
  The smallest positive binary64 number, the smallest positive normal one, and the unit
  roundoff; a number is on the grid when it is a multiple of the smallest positive
  number, as every finite result of a rounded operation is.
\<close>

definition min_subnormal :: real where
  "min_subnormal = 2 powi (- 1074)"

definition min_normal :: real where
  "min_normal = 2 powi (- 1022)"

definition unit_roundoff :: real where
  "unit_roundoff = 2 powi (- 53)"

definition on_grid :: "real \<Rightarrow> bool" where
  "on_grid x \<longleftrightarrow> (\<exists>k::int. x = of_int k * min_subnormal)"

section \<open>Tags and static type checkers (src/CabanaPD\_Types.hpp)\<close>

text \<open>
  The classes the sources name, as values. The first twelve are the tag structs of
  CabanaPD\_Types.hpp; \<open>NoFracture\<close> is named by the contact model as its fracture
  tag; the remaining ones are the model classes of CabanaPD\_ContactModels.hpp and the
  model classes the force test instantiates.
\<close>

datatype cpp_class =
    Elastic | Fracture | NoFracture
  | Contact | NoContact
  | TemperatureIndependent | TemperatureDependent | DynamicTemperature
  | PMB | LinearPMB | LPS | LinearLPS
  | ContactModel_class | NormalRepulsionModel_class
  | PMBModel_class | LinearPMBModel_class | LPSModel_class | LinearLPSModel_class

text \<open>
  A trait \<open>template <class> struct t : std::false_type\<close> with explicit
  specialisations deriving from \<open>std::true_type\<close> is a predicate on classes: the
  specialisations come first, the primary template is the default case.
\<close>

fun is_contact :: "cpp_class \<Rightarrow> bool" where
  "is_contact NormalRepulsionModel_class = True"
| "is_contact _ = False"

fun is_temperature_dependent :: "cpp_class \<Rightarrow> bool" where
  "is_temperature_dependent TemperatureDependent = True"
| "is_temperature_dependent DynamicTemperature = True"
| "is_temperature_dependent _ = False"

fun is_heat_transfer :: "cpp_class \<Rightarrow> bool" where
  "is_heat_transfer DynamicTemperature = True"
| "is_heat_transfer _ = False"

text \<open>
  Member type aliases (\<open>using base_model = ...\<close>), \<open>None\<close> where the sources at
  hand declare no such member for the class.
\<close>

fun base_model :: "cpp_class \<Rightarrow> cpp_class option" where
  "base_model NormalRepulsionModel_class = Some PMB"
| "base_model _ = None"

fun fracture_type :: "cpp_class \<Rightarrow> cpp_class option" where
  "fracture_type NormalRepulsionModel_class = Some NoFracture"
| "fracture_type _ = None"

fun thermal_type :: "cpp_class \<Rightarrow> cpp_class option" where
  "thermal_type NormalRepulsionModel_class = Some TemperatureIndependent"
| "thermal_type _ = None"

section \<open>Contact models (src/force/CabanaPD\_ContactModels.hpp)\<close>

text \<open>
  The members are \<open>double\<close>s; the records leave the number type open, so that the
  classes can be read exactly, at \<^typ>\<open>real\<close>, and in binary64, at \<^typ>\<open>double\<close>.
\<close>

record 'a ContactModel =
  delta :: 'a
  Rc :: 'a

record 'a NormalRepulsionModel = "'a ContactModel" +
  c :: 'a
  K :: 'a

text \<open>
  The constructor: the base class stores \<open>delta\<close> and \<open>Rc\<close>, the body stores \<open>K\<close> and
  computes \<open>c\<close> with the horizon multiplied out four times, as written.
\<close>

definition NormalRepulsionModel :: "real \<Rightarrow> real \<Rightarrow> real \<Rightarrow> real NormalRepulsionModel" where
  "NormalRepulsionModel d rc k =
     \<lparr> delta = d, Rc = rc, c = 18 * k / (pi * d * d * d * d), K = k \<rparr>"

definition forceCoeff :: "real NormalRepulsionModel \<Rightarrow> real \<Rightarrow> real \<Rightarrow> real" where
  "forceCoeff m r vol = (let sc = (r - Rc m) / delta m in 15 * c m * sc * vol)"

text \<open>
  The constructor and \<open>forceCoeff\<close> in the binary64 reading: every operation of the
  source expressions rounds, in the order in which C++ evaluates them, left to right.
\<close>

definition NormalRepulsionModel_double ::
  "double \<Rightarrow> double \<Rightarrow> double \<Rightarrow> double NormalRepulsionModel" where
  "NormalRepulsionModel_double d rc k =
     \<lparr> delta = d, Rc = rc,
       c = d_div (d_mul (Finite 18) k) (d_mul (d_mul (d_mul (d_mul pi_double d) d) d) d),
       K = k \<rparr>"

definition forceCoeff_double :: "double NormalRepulsionModel \<Rightarrow> double \<Rightarrow> double \<Rightarrow> double" where
  "forceCoeff_double m r vol =
     (let sc = d_div (d_sub r (Rc m)) (delta m)
      in d_mul (d_mul (d_mul (Finite 15) (c m)) sc) vol)"

text \<open>
  A C++ construction either throws or yields the object. Neither the initialiser list nor
  the body of the constructor contains a \<open>throw\<close>, an assertion or an abort, so the
  outcome is the object for every argument triple.
\<close>

datatype construction_error = ConfigurationError

definition construct_NormalRepulsionModel ::
  "real \<Rightarrow> real \<Rightarrow> real \<Rightarrow> construction_error + real NormalRepulsionModel" where
  "construct_NormalRepulsionModel d rc k = Inr (NormalRepulsionModel d rc k)"

text \<open>
  The parameter sets the error taxonomy calls configuration errors: a non-positive
  horizon, a non-positive elastic constant, or a contact radius not below the horizon.
\<close>

definition configuration_error :: "real \<Rightarrow> real \<Rightarrow> real \<Rightarrow> bool" where
  "configuration_error d rc k \<longleftrightarrow> d \<le> 0 \<or> k \<le> 0 \<or> d \<le> rc"

section \<open>Reference calculations of the force test (unit\_test/tstForce.hpp)\<close>

text \<open>
  The classes \<open>PMBModel\<close> and \<open>LPSModel\<close> are declared outside these sources. The
  records hold the members the test reads (\<open>model.delta\<close>, \<open>model.c\<close>, \<open>model.K\<close>,
  \<open>model.G\<close>, \<open>model.theta_coeff\<close>, \<open>model.s_coeff\<close>), prefixed to keep them apart
  from the members of the contact model.
\<close>

record PMBModel =
  pmb_delta :: real
  pmb_c :: real
  pmb_K :: real

record LPSModel =
  lps_delta :: real
  lps_K :: real
  lps_G :: real
  lps_theta_coeff :: real
  lps_s_coeff :: real

text \<open>
  The loop nest \<open>for i = -m .. m, for j = -m .. m, for k = -m .. m\<close>, as the list of the
  index triples in the order the loops visit them.
\<close>

definition loop_nest :: "int \<Rightarrow> (int \<times> int \<times> int) list" where
  "loop_nest m =
     concat (map (\<lambda>i. concat (map (\<lambda>j. map (\<lambda>k. (i, j, k)) [- m..m]) [- m..m])) [- m..m])"

text \<open>The reference bond length \<open>xi\<close> that every loop body computes first.\<close>

definition bond_length :: "real \<Rightarrow> int \<times> int \<times> int \<Rightarrow> real" where
  "bond_length dx = (\<lambda>(i, j, k).
     let xi_x = dx * of_int i; xi_y = dx * of_int j; xi_z = dx * of_int k
     in sqrt (xi_x * xi_x + xi_y * xi_y + xi_z * xi_z))"

text \<open>\<open>computeReferenceStrainEnergyDensity( CabanaPD::PMBModel, m, s0 )\<close>.\<close>

definition computeReferenceStrainEnergyDensity_PMB :: "PMBModel \<Rightarrow> int \<Rightarrow> real \<Rightarrow> real" where
  "computeReferenceStrainEnergyDensity_PMB model m s0 =
     (let dx = pmb_delta model / of_int m;
          vol = dx * dx * dx
      in foldl (\<lambda>W ijk.
           let xi = bond_length dx ijk
           in if xi > 0 \<and> xi < pmb_delta model + 1 / 10 ^ 14
              then W + 0.25 * pmb_c model * s0 * s0 * xi * vol
              else W) 0 (loop_nest m))"

text \<open>\<open>computeReferenceForceX( CabanaPD::PMBModel, m, s0 )\<close>.\<close>

definition computeReferenceForceX :: "PMBModel \<Rightarrow> int \<Rightarrow> real \<Rightarrow> real" where
  "computeReferenceForceX model m s0 =
     (let dx = pmb_delta model / of_int m;
          vol = dx * dx * dx
      in foldl (\<lambda>f (i, j, k).
           let xi_x = dx * of_int i; xi_y = dx * of_int j; xi_z = dx * of_int k;
               eta_u = s0 * xi_x * xi_x;
               rx = xi_x + eta_u; ry = xi_y; rz = xi_z;
               r = sqrt (rx * rx + ry * ry + rz * rz);
               xi = sqrt (xi_x * xi_x + xi_y * xi_y + xi_z * xi_z)
           in if xi > 0 \<and> xi < pmb_delta model + 1 / 10 ^ 14
              then f + pmb_c model * s0 * vol * rx / r
              else f) 0 (loop_nest m))"

text \<open>
  \<open>computeReferenceStrainEnergyDensity( CabanaPD::LPSModel, m, s0 )\<close>: three loop
  nests in sequence, for the weighted volume, for the dilatation and the neighbour count,
  and for the strain energy.
\<close>

definition reference_weighted_volume :: "real \<Rightarrow> real \<Rightarrow> real \<Rightarrow> int \<Rightarrow> real" where
  "reference_weighted_volume del dx vol m =
     foldl (\<lambda>weighted_volume ijk.
        let xi = bond_length dx ijk
        in if xi > 0 \<and> xi < del + 1 / 10 ^ 14
           then weighted_volume + 1 / xi * xi * xi * vol
           else weighted_volume) 0 (loop_nest m)"

definition reference_theta :: "real \<Rightarrow> real \<Rightarrow> real \<Rightarrow> real \<Rightarrow> real \<Rightarrow> int \<Rightarrow> real \<times> real" where
  "reference_theta del dx vol weighted_volume s0 m =
     foldl (\<lambda>(theta, num_neighbors) ijk.
        let xi = bond_length dx ijk
        in if xi > 0 \<and> xi < del + 1 / 10 ^ 14
           then (theta + 3 / weighted_volume * 1 / xi * s0 * xi * xi * vol,
                 num_neighbors + 1)
           else (theta, num_neighbors)) (0, 0) (loop_nest m)"

definition computeReferenceStrainEnergyDensity_LPS :: "LPSModel \<Rightarrow> int \<Rightarrow> real \<Rightarrow> real" where
  "computeReferenceStrainEnergyDensity_LPS model m s0 =
     (let dx = lps_delta model / of_int m;
          vol = dx * dx * dx;
          weighted_volume = reference_weighted_volume (lps_delta model) dx vol m;
          (theta, num_neighbors) =
             reference_theta (lps_delta model) dx vol weighted_volume s0 m
      in foldl (\<lambda>W ijk.
           let xi = bond_length dx ijk
           in if xi > 0 \<and> xi < lps_delta model + 1 / 10 ^ 14
              then W + ((1 / num_neighbors) * 0.5 * lps_theta_coeff model / 3 *
                          (theta * theta) +
                        0.5 * (lps_s_coeff model / weighted_volume) * 1 / xi *
                          s0 * s0 * xi * xi * vol)
              else W) 0 (loop_nest m))"

text \<open>
  The index triples for which a loop body passes the guard, that is, the bonds at which
  the energy and force formulas are evaluated.
\<close>

definition visited_bonds :: "real \<Rightarrow> real \<Rightarrow> int \<Rightarrow> (int \<times> int \<times> int) list" where
  "visited_bonds del dx m =
     filter (\<lambda>ijk. bond_length dx ijk > 0 \<and> bond_length dx ijk < del + 1 / 10 ^ 14)
       (loop_nest m)"

text \<open>
  The host copy of the particle fields that \<open>testForce\<close> makes after the force and energy
  evaluation (\<open>Cabana::AoSoA<MemberTypes<double[3], double[3], double, double, double>>\<close>),
  one tuple per particle, with the number type left open as for the model classes, and
  the checks of \<open>checkResults\<close> on it. \<open>EXPECT_NEAR\<close> is read in binary64: it passes
  when \<open>fabs( val1 - val2 ) <= abs_error\<close>. \<open>EXPECT_FLOAT_EQ\<close> and \<open>EXPECT_LE\<close> are read
  exactly; \<open>EXPECT_FLOAT_EQ\<close> is equality up to rounding, hence equality.
\<close>

type_synonym vec3 = "real \<times> real \<times> real"

record 'a host_tuple =
  f_host :: "'a \<times> 'a \<times> 'a"
  x_host :: "'a \<times> 'a \<times> 'a"
  W_host :: 'a
  vol_host :: 'a
  theta_host :: 'a

definition EXPECT_NEAR :: "double \<Rightarrow> double \<Rightarrow> double \<Rightarrow> bool" where
  "EXPECT_NEAR val1 val2 abs_error \<longleftrightarrow> d_le (d_abs (d_sub val1 val2)) abs_error"

definition EXPECT_FLOAT_EQ :: "real \<Rightarrow> real \<Rightarrow> bool" where
  "EXPECT_FLOAT_EQ expected actual \<longleftrightarrow> expected = actual"

definition EXPECT_LE :: "real \<Rightarrow> real \<Rightarrow> bool" where
  "EXPECT_LE val1 val2 \<longleftrightarrow> val1 \<le> val2"

text \<open>
  The accumulation \<open>ref_Phi += W_host( p ) * vol_host( p )\<close> of \<open>checkResults\<close>, from
  \<open>double ref_Phi = 0.0\<close>, over the particles in the order of their indices, in
  binary64.
\<close>

definition ref_Phi :: "double host_tuple list \<Rightarrow> double" where
  "ref_Phi aosoa_host =
     foldl (\<lambda>acc p. d_add acc (d_mul (W_host (aosoa_host ! p)) (vol_host (aosoa_host ! p))))
       (Finite 0) [0..<length aosoa_host]"

definition checkTheta_PMB :: "real \<Rightarrow> real \<Rightarrow> bool" where
  "checkTheta_PMB s0 theta \<longleftrightarrow> EXPECT_FLOAT_EQ 0 theta"

definition checkTheta_LPS :: "real \<Rightarrow> real \<Rightarrow> bool" where
  "checkTheta_LPS s0 theta \<longleftrightarrow> EXPECT_FLOAT_EQ (3 * s0) theta"

section \<open>Force kernel, bond-state tracker and energy reducer\<close>

text \<open>
  The force kernel, the bond-state tracker and the energy reducer live in
  CabanaPD\_Force.hpp, and the elastic model classes in the force-model header; neither
  file is among the sources verified here. This section models them from the
  specification; the horizon weight of the weighted volume, which the specification
  leaves open, is a member of the model.
\<close>

subsection \<open>Vectors\<close>

definition add3 :: "vec3 \<Rightarrow> vec3 \<Rightarrow> vec3" where
  "add3 = (\<lambda>(a1, a2, a3) (b1, b2, b3). (a1 + b1, a2 + b2, a3 + b3))"

definition sub3 :: "vec3 \<Rightarrow> vec3 \<Rightarrow> vec3" where
  "sub3 = (\<lambda>(a1, a2, a3) (b1, b2, b3). (a1 - b1, a2 - b2, a3 - b3))"

definition scale3 :: "real \<Rightarrow> vec3 \<Rightarrow> vec3" where
  "scale3 a = (\<lambda>(b1, b2, b3). (a * b1, a * b2, a * b3))"

definition neg3 :: "vec3 \<Rightarrow> vec3" where
  "neg3 = (\<lambda>(b1, b2, b3). (- b1, - b2, - b3))"

definition norm3 :: "vec3 \<Rightarrow> real" where
  "norm3 = (\<lambda>(b1, b2, b3). sqrt (b1 * b1 + b2 * b2 + b3 * b3))"

fun sum3 :: "vec3 list \<Rightarrow> vec3" where
  "sum3 [] = (0, 0, 0)"
| "sum3 (v # vs) = add3 v (sum3 vs)"

subsection \<open>Data\<close>

text \<open>
  Modelled from the spec: the bond state of the bond-state tracker (section 4.2), which
  is missing from the sources. A bond is intact or broken.
\<close>

datatype bond_state = Intact | Broken

text \<open>
  Modelled from the spec: the constitutive model's capability interface (sections 4.1
  and 9), which is missing from the sources: the horizon, the force and the energy
  coefficient as functions of bond vector, current length, reference length, neighbour
  volume, dilatation and weighted volume, the critical stretch of a fracture-capable
  model (\<open>None\<close> for a model without fracture), whether the model is state-based, and
  the horizon weight of the weighted volume.
\<close>

record constitutive_model =
  horizon :: real
  forceCoefficient :: "vec3 \<Rightarrow> real \<Rightarrow> real \<Rightarrow> real \<Rightarrow> real \<Rightarrow> real \<Rightarrow> real"
  energyCoefficient :: "vec3 \<Rightarrow> real \<Rightarrow> real \<Rightarrow> real \<Rightarrow> real \<Rightarrow> real \<Rightarrow> real"
  criticalStretch :: "real option"
  isStateBased :: bool
  horizonWeight :: "real \<Rightarrow> real"

text \<open>
  Modelled from the spec: whether a model is fracture-capable (section 9), which is
  missing from the sources.
\<close>

definition isFractureCapable :: "constitutive_model \<Rightarrow> bool" where
  "isFractureCapable M \<longleftrightarrow> criticalStretch M \<noteq> None"

text \<open>
  Modelled from the spec: the particle field store (sections 2 and 3), an external
  collaborator missing from the sources: per particle index the position, displacement
  and volume, and the output fields force, strain-energy density, dilatation and
  weighted volume; \<open>n_local\<close> is the number of local particles. The number type of the
  fields is left open; the kernel reads the store exactly, the energy reducer in
  binary64.
\<close>

record 'a particle_fields =
  n_local :: nat
  position :: "nat \<Rightarrow> 'a \<times> 'a \<times> 'a"
  displacement :: "nat \<Rightarrow> 'a \<times> 'a \<times> 'a"
  volume :: "nat \<Rightarrow> 'a"
  force :: "nat \<Rightarrow> 'a \<times> 'a \<times> 'a"
  strain_energy_density :: "nat \<Rightarrow> 'a"
  dilatation :: "nat \<Rightarrow> 'a"
  weighted_volume :: "nat \<Rightarrow> 'a"

type_synonym particle_store = "real particle_fields"

text \<open>
  Modelled from the spec: the neighbour enumeration (section 2), an external
  collaborator missing from the sources: per particle index the ordered list of its
  neighbours' indices.
\<close>

type_synonym neighbor_enumeration = "nat \<Rightarrow> nat list"

text \<open>
  Modelled from the spec: the storage of the bond-state tracker (sections 3 and 9),
  which is missing from the sources: one state per owner and bond slot.
\<close>

type_synonym bond_tracker = "nat \<Rightarrow> bond_state list"

text \<open>
  Modelled from the spec: \<open>initialize\<close> (sections 4.2 and 6), which is missing from the
  sources: every enumerated bond starts intact.
\<close>

definition initialize :: "neighbor_enumeration \<Rightarrow> bond_tracker" where
  "initialize neigh = (\<lambda>p. replicate (length (neigh p)) Intact)"

text \<open>
  Modelled from the spec: the query of the tracker (section 4.2), which is missing from
  the sources: whether the bond in a slot of an owner is broken.
\<close>

definition is_broken :: "bond_tracker \<Rightarrow> nat \<Rightarrow> nat \<Rightarrow> bool" where
  "is_broken T p slot \<longleftrightarrow> slot < length (T p) \<and> T p ! slot = Broken"

text \<open>
  Modelled from the spec: the bonds of a particle as the bond loop visits them
  (sections 4.1 and 6), which is missing from the sources: each neighbour with the
  state in its slot; self-pairs, where the neighbour's index is the owner's index, are
  skipped at the source.
\<close>

definition bonds :: "neighbor_enumeration \<Rightarrow> bond_tracker \<Rightarrow> nat \<Rightarrow> (nat \<times> bond_state) list" where
  "bonds neigh T p = filter (\<lambda>(q, st). q \<noteq> p) (zip (neigh p) (T p))"

text \<open>
  An enumeration, or a tracker, without one slot of one owner: what the neighbour
  enumeration and the tracker are when the bond in that slot is not enumerated.
\<close>

definition delete_slot :: "nat \<Rightarrow> nat \<Rightarrow> (nat \<Rightarrow> 'a list) \<Rightarrow> nat \<Rightarrow> 'a list" where
  "delete_slot p slot f = f (p := take slot (f p) @ drop (Suc slot) (f p))"

subsection \<open>Bond geometry\<close>

text \<open>
  Modelled from the spec: the reference bond vector (section 3), which is missing from
  the sources: neighbour position minus owner position, before displacement.
\<close>

definition reference_vector :: "particle_store \<Rightarrow> nat \<Rightarrow> nat \<Rightarrow> vec3" where
  "reference_vector P p q = sub3 (position P q) (position P p)"

text \<open>
  Modelled from the spec: the current relative position vector (section 3), which is
  missing from the sources: neighbour position minus owner position, including the
  accumulated displacement.
\<close>

definition current_vector :: "particle_store \<Rightarrow> nat \<Rightarrow> nat \<Rightarrow> vec3" where
  "current_vector P p q =
     sub3 (add3 (position P q) (displacement P q)) (add3 (position P p) (displacement P p))"

text \<open>
  Modelled from the spec: the reference bond length (section 3), which is missing from
  the sources.
\<close>

definition reference_length :: "particle_store \<Rightarrow> nat \<Rightarrow> nat \<Rightarrow> real" where
  "reference_length P p q = norm3 (reference_vector P p q)"

text \<open>
  Modelled from the spec: the current bond length (section 3), which is missing from
  the sources.
\<close>

definition current_length :: "particle_store \<Rightarrow> nat \<Rightarrow> nat \<Rightarrow> real" where
  "current_length P p q = norm3 (current_vector P p q)"

text \<open>
  Modelled from the spec: the bond stretch (section 3 and the glossary), which is
  missing from the sources: (current length - reference length) / reference length.
\<close>

definition bond_stretch :: "particle_store \<Rightarrow> nat \<Rightarrow> nat \<Rightarrow> real" where
  "bond_stretch P p q =
     (current_length P p q - reference_length P p q) / reference_length P p q"

subsection \<open>The passes of the kernel\<close>

text \<open>
  Modelled from the spec: the contribution of one bond to the weighted volume
  (section 4.3, step 1), which is missing from the sources: horizon weight times
  reference length squared times neighbour volume for an intact bond, nothing for a
  broken one.
\<close>

definition weighted_volume_term ::
  "constitutive_model \<Rightarrow> particle_store \<Rightarrow> nat \<Rightarrow> nat \<times> bond_state \<Rightarrow> real" where
  "weighted_volume_term M P p = (\<lambda>(q, st).
     if st = Broken then 0
     else let xi = reference_length P p q
          in horizonWeight M xi * xi * xi * volume P q)"

text \<open>
  Modelled from the spec: the initialization pass for one particle (section 4.3,
  step 1), which is missing from the sources: the sum of the contributions of the
  particle's bonds.
\<close>

definition computeWeightedVolume ::
  "constitutive_model \<Rightarrow> neighbor_enumeration \<Rightarrow> bond_tracker \<Rightarrow> particle_store \<Rightarrow> nat \<Rightarrow> real" where
  "computeWeightedVolume M neigh T P p =
     sum_list (map (weighted_volume_term M P p) (bonds neigh T p))"

text \<open>
  Modelled from the spec: the contribution of one bond to the dilatation (section 4.3,
  step 2), which is missing from the sources: the bond's stretch weighted by the
  reference length, the neighbour volume and 1/m(p); nothing for a broken bond.
\<close>

definition dilatation_term ::
  "constitutive_model \<Rightarrow> particle_store \<Rightarrow> nat \<Rightarrow> nat \<times> bond_state \<Rightarrow> real" where
  "dilatation_term M P p = (\<lambda>(q, st).
     if st = Broken then 0
     else let xi = reference_length P p q
          in bond_stretch P p q * xi * volume P q * (1 / weighted_volume P p))"

text \<open>
  Modelled from the spec: the dilatation pass for one particle (section 4.3, step 2),
  which is missing from the sources: the sum of the contributions of the particle's
  bonds.
\<close>

definition computeDilatation ::
  "constitutive_model \<Rightarrow> neighbor_enumeration \<Rightarrow> bond_tracker \<Rightarrow> particle_store \<Rightarrow> nat \<Rightarrow> real" where
  "computeDilatation M neigh T P p =
     sum_list (map (dilatation_term M P p) (bonds neigh T p))"

text \<open>
  Modelled from the spec: the critical-stretch test (sections 4.2 and 7), which is
  missing from the sources: a stretch equal to the critical stretch counts as exceeding
  it, and a model without fracture has no critical stretch.
\<close>

definition exceeds_critical :: "constitutive_model \<Rightarrow> real \<Rightarrow> bool" where
  "exceeds_critical M s = (case criticalStretch M of None \<Rightarrow> False | Some s_c \<Rightarrow> s_c \<le> s)"

text \<open>
  Modelled from the spec: the state machine of one bond (sections 4.2 and 4.3, step 4),
  which is missing from the sources: a broken bond stays broken, an intact bond breaks
  when this cycle's stretch exceeds the critical stretch.
\<close>

definition evaluate_bond :: "constitutive_model \<Rightarrow> particle_store \<Rightarrow> nat \<Rightarrow> nat \<times> bond_state \<Rightarrow> bond_state" where
  "evaluate_bond M P p = (\<lambda>(q, st).
     if st = Broken then Broken
     else if exceeds_critical M (bond_stretch P p q) then Broken
     else Intact)"

text \<open>
  Modelled from the spec: the contribution of one bond to the owner's force
  (section 4.3, steps 3 and 4), which is missing from the sources: the force coefficient
  times the unit bond vector for a bond that is intact after this cycle's fracture
  evaluation, nothing otherwise.
\<close>

definition force_term ::
  "constitutive_model \<Rightarrow> particle_store \<Rightarrow> nat \<Rightarrow> nat \<times> bond_state \<Rightarrow> vec3" where
  "force_term M P p = (\<lambda>(q, st).
     if evaluate_bond M P p (q, st) = Broken then (0, 0, 0)
     else let v = current_vector P p q;
              r = current_length P p q;
              xi = reference_length P p q;
              coeff = forceCoefficient M v r xi (volume P q) (dilatation P p) (weighted_volume P p)
          in scale3 (coeff / r) v)"

text \<open>
  Modelled from the spec: the contribution of one bond to the owner's strain-energy
  density (section 4.3, steps 3 and 4), which is missing from the sources: the energy
  coefficient for a bond that is intact after this cycle's fracture evaluation, nothing
  otherwise.
\<close>

definition energy_term ::
  "constitutive_model \<Rightarrow> particle_store \<Rightarrow> nat \<Rightarrow> nat \<times> bond_state \<Rightarrow> real" where
  "energy_term M P p = (\<lambda>(q, st).
     if evaluate_bond M P p (q, st) = Broken then 0
     else let v = current_vector P p q;
              r = current_length P p q;
              xi = reference_length P p q
          in energyCoefficient M v r xi (volume P q) (dilatation P p) (weighted_volume P p))"

text \<open>
  Modelled from the spec: the force pass for one particle (section 4.3, step 3), which
  is missing from the sources: the sum of the force contributions of the particle's
  bonds.
\<close>

definition computeForceFull ::
  "constitutive_model \<Rightarrow> neighbor_enumeration \<Rightarrow> bond_tracker \<Rightarrow> particle_store \<Rightarrow> nat \<Rightarrow> vec3" where
  "computeForceFull M neigh T P p = sum3 (map (force_term M P p) (bonds neigh T p))"

text \<open>
  Modelled from the spec: the energy pass for one particle (section 4.3, step 3), which
  is missing from the sources: the sum of the energy contributions of the particle's
  bonds.
\<close>

definition computeStrainEnergyDensity ::
  "constitutive_model \<Rightarrow> neighbor_enumeration \<Rightarrow> bond_tracker \<Rightarrow> particle_store \<Rightarrow> nat \<Rightarrow> real" where
  "computeStrainEnergyDensity M neigh T P p =
     sum_list (map (energy_term M P p) (bonds neigh T p))"

text \<open>
  Modelled from the spec: the fracture evaluation for one particle (section 4.3,
  step 4), which is missing from the sources: the next states of the particle's bond
  slots; the slot of a skipped self-pair keeps its state.
\<close>

definition evaluateBonds ::
  "constitutive_model \<Rightarrow> neighbor_enumeration \<Rightarrow> bond_tracker \<Rightarrow> particle_store \<Rightarrow> nat \<Rightarrow> bond_state list" where
  "evaluateBonds M neigh T P p =
     map (\<lambda>(q, st). if q = p then st else evaluate_bond M P p (q, st)) (zip (neigh p) (T p))"

text \<open>
  Modelled from the spec: \<open>computeForce\<close> (sections 3, 4.3 and 6), which is missing
  from the sources: one evaluation cycle. The force, energy and dilatation fields are
  overwritten at the start; a state-based model runs the initialization pass and then
  the dilatation pass over the local particles; every model runs the force and energy
  pass with the fracture evaluation, which also gives the tracker's next state.
\<close>

definition computeForce ::
  "constitutive_model \<Rightarrow> neighbor_enumeration \<Rightarrow> particle_store \<times> bond_tracker \<Rightarrow>
     particle_store \<times> bond_tracker" where
  "computeForce M neigh = (\<lambda>(P, T).
     let P0 = P\<lparr> force := (\<lambda>p. (0, 0, 0)),
                strain_energy_density := (\<lambda>p. 0),
                dilatation := (\<lambda>p. 0) \<rparr>;
         P1 = (if isStateBased M
               then P0\<lparr> weighted_volume := (\<lambda>p.
                      if p < n_local P0 then computeWeightedVolume M neigh T P0 p
                      else weighted_volume P0 p) \<rparr>
               else P0);
         P2 = (if isStateBased M
               then P1\<lparr> dilatation := (\<lambda>p.
                      if p < n_local P1 then computeDilatation M neigh T P1 p
                      else dilatation P1 p) \<rparr>
               else P1);
         P3 = P2\<lparr> force := (\<lambda>p.
                      if p < n_local P2 then computeForceFull M neigh T P2 p
                      else force P2 p),
                    strain_energy_density := (\<lambda>p.
                      if p < n_local P2 then computeStrainEnergyDensity M neigh T P2 p
                      else strain_energy_density P2 p) \<rparr>;
         T' = (\<lambda>p. if p < n_local P2 then evaluateBonds M neigh T P2 p else T p)
     in (P3, T'))"

text \<open>
  Modelled from the spec: the caller's loop around the kernel (section 4.3, last
  paragraph), which is missing from the sources: one evaluation cycle per configuration,
  the configurations given as the displacement fields of the successive cycles.
\<close>

fun run_cycles ::
  "constitutive_model \<Rightarrow> neighbor_enumeration \<Rightarrow> (nat \<Rightarrow> vec3) list \<Rightarrow>
     particle_store \<times> bond_tracker \<Rightarrow> particle_store \<times> bond_tracker" where
  "run_cycles M neigh [] PT = PT"
| "run_cycles M neigh (u # us) PT =
     run_cycles M neigh us (computeForce M neigh ((fst PT)\<lparr> displacement := u \<rparr>, snd PT))"

subsection \<open>The energy reducer\<close>

text \<open>
  Modelled from the spec: the schedule of the parallel reduction (sections 4.4 and 5,
  and the design note on the global reduction: a dedicated tree reduction), which is
  missing from the sources: how the partial sums of the workers are combined, as a tree
  whose leaves are particle indices or the zero a worker starts from.
\<close>

datatype schedule = Idle | Particle nat | Combine schedule schedule

text \<open>
  Modelled from the spec: the particles a schedule visits (section 5), missing from the
  sources, in the order of the leaves.
\<close>

fun particles_of :: "schedule \<Rightarrow> nat list" where
  "particles_of Idle = []"
| "particles_of (Particle p) = [p]"
| "particles_of (Combine l r) = particles_of l @ particles_of r"

text \<open>
  The number of additions on the longest path from a leaf of a schedule to its root.
\<close>

fun height :: "schedule \<Rightarrow> nat" where
  "height Idle = 0"
| "height (Particle p) = 0"
| "height (Combine l r) = Suc (max (height l) (height r))"

text \<open>
  Modelled from the spec: the race-free reduction along a schedule (sections 4.4
  and 5), which is missing from the sources, every addition rounded to binary64.
\<close>

fun reduce :: "(nat \<Rightarrow> double) \<Rightarrow> schedule \<Rightarrow> double" where
  "reduce g Idle = Finite 0"
| "reduce g (Particle p) = g p"
| "reduce g (Combine l r) = d_add (reduce g l) (reduce g r)"

text \<open>
  Modelled from the spec: the work of one worker (section 5), which is missing from the
  sources: it adds the contributions of its particles to a zero, one after the other.
\<close>

definition seq_schedule :: "nat list \<Rightarrow> schedule" where
  "seq_schedule ps = foldl (\<lambda>s p. Combine s (Particle p)) Idle ps"

text \<open>
  Modelled from the spec: the schedule the reducer follows over the index range of
  \<open>n\<close> particles from \<open>lo\<close> (sections 4.4 and 5; the result need not be
  bit-reproducible across thread counts), which is missing from the sources: a range no
  longer than the grain, the number of particles handed to one worker, is summed by
  one worker; a longer range is halved and the sums of the halves are added.
\<close>

function range_schedule :: "nat \<Rightarrow> nat \<Rightarrow> nat \<Rightarrow> schedule" where
  "range_schedule grain lo n =
     (if n \<le> max 1 grain then seq_schedule [lo..<lo + n]
      else Combine (range_schedule grain lo (n div 2))
                   (range_schedule grain (lo + n div 2) (n - n div 2)))"
  by pat_completeness auto
termination
  by (relation "measure (\<lambda>(grain, lo, n). n)") auto

declare range_schedule.simps [simp del]

text \<open>
  Modelled from the spec: the energy reducer \<open>computeEnergy\<close> (sections 4.4 and 6),
  which is missing from the sources: the reduction of the per-particle products
  W(p) * vol(p) over the local particles, each of them counted once.
\<close>

definition computeEnergy :: "nat \<Rightarrow> double particle_fields \<Rightarrow> double" where
  "computeEnergy grain P =
     reduce (\<lambda>p. d_mul (strain_energy_density P p) (volume P p))
       (range_schedule grain 0 (n_local P))"

text \<open>
  The host copy \<open>testForce\<close> makes of the fields (\<open>Cabana::deep_copy\<close> of the force,
  position, energy, volume and dilatation slices into the host tuples), over the local
  particles.
\<close>

definition host_copy :: "'a particle_fields \<Rightarrow> 'a host_tuple list" where
  "host_copy P =
     map (\<lambda>p. \<lparr> f_host = force P p, x_host = position P p,
                W_host = strain_energy_density P p, vol_host = volume P p,
                theta_host = dilatation P p \<rparr>) [0..<n_local P]"

text \<open>
  The sum of the magnitudes of the products W(p) * vol(p) of the local particles, as
  numbers.
\<close>

definition energy_mass :: "double particle_fields \<Rightarrow> real" where
  "energy_mass P =
     sum_list (map (\<lambda>p. \<bar>value_of (d_mul (strain_energy_density P p) (volume P p))\<bar>)
       [0..<n_local P])"

subsection \<open>Fully populated neighbourhoods\<close>

text \<open>
  Modelled from the spec: the neighbourhood of a particle (section 8; the reference
  calculations of the force test assume uniform volume and a full particle
  neighbourhood), which is missing from the sources: the list of its bonds' reference
  vectors, neighbour volumes and states.
\<close>

definition neighbourhood ::
  "particle_store \<Rightarrow> neighbor_enumeration \<Rightarrow> bond_tracker \<Rightarrow> nat \<Rightarrow> (vec3 \<times> real \<times> bond_state) list" where
  "neighbourhood P neigh T p =
     map (\<lambda>(q, st). (reference_vector P p q, volume P q, st)) (bonds neigh T p)"

text \<open>
  Modelled from the spec: the opposite bond (section 8), which is missing from the
  sources: the bond with the negated reference vector, the same neighbour volume and
  the same state.
\<close>

definition mirror_bond :: "vec3 \<times> real \<times> bond_state \<Rightarrow> vec3 \<times> real \<times> bond_state" where
  "mirror_bond = (\<lambda>(v, vol, st). (neg3 v, vol, st))"

text \<open>
  Modelled from the spec: a fully populated neighbourhood (section 8), which is missing
  from the sources: with every bond, the neighbourhood holds the opposite bond.
\<close>

definition fully_populated ::
  "particle_store \<Rightarrow> neighbor_enumeration \<Rightarrow> bond_tracker \<Rightarrow> nat \<Rightarrow> bool" where
  "fully_populated P neigh T p \<longleftrightarrow>
     mset (map mirror_bond (neighbourhood P neigh T p)) = mset (neighbourhood P neigh T p)"

text \<open>
  The force contribution of a bond under the uniform stretch field \<open>u = s0 x\<close>, written
  in the bond's entry in the neighbourhood: the current bond vector is \<open>(1 + s0)\<close> times
  the reference vector \<open>v\<close>. The arguments \<open>th\<close> and \<open>m\<close> are the owner's dilatation
  and weighted volume.
\<close>

definition uniform_force_term ::
  "constitutive_model \<Rightarrow> real \<Rightarrow> real \<Rightarrow> real \<Rightarrow> vec3 \<times> real \<times> bond_state \<Rightarrow> vec3" where
  "uniform_force_term M s0 th m = (\<lambda>(v, vol, st).
     if st = Broken \<or> exceeds_critical M ((\<bar>1 + s0\<bar> * norm3 v - norm3 v) / norm3 v)
     then (0, 0, 0)
     else scale3 (forceCoefficient M (scale3 (1 + s0) v) (\<bar>1 + s0\<bar> * norm3 v) (norm3 v)
                    vol th m / (\<bar>1 + s0\<bar> * norm3 v)) (scale3 (1 + s0) v))"

section \<open>A small configuration\<close>

text \<open>
  Five particles, one at the origin and one at unit distance on either side along the x
  and the y axis, each of volume 1/8, displaced by the uniform stretch field
  \<open>u = s0 x\<close>; the centre particle has the other four as neighbours. The model is
  state-based and fracture-capable, with critical stretch 1/2 and horizon weight
  \<open>1 / xi\<close>.
\<close>

definition example_model :: constitutive_model where
  "example_model =
     \<lparr> horizon = 3 / 2,
       forceCoefficient = (\<lambda>v r xi vol theta m. (theta + 18 * ((r - xi) / xi)) * vol),
       energyCoefficient = (\<lambda>v r xi vol theta m. 9 / 2 * ((r - xi) / xi) * ((r - xi) / xi) * xi * vol),
       criticalStretch = Some (1 / 2),
       isStateBased = True,
       horizonWeight = (\<lambda>xi. 1 / xi) \<rparr>"

definition example_position :: "nat \<Rightarrow> vec3" where
  "example_position p =
     (if p = 1 then (1, 0, 0) else if p = 2 then (- 1, 0, 0)
      else if p = 3 then (0, 1, 0) else if p = 4 then (0, - 1, 0)
      else (0, 0, 0))"

definition example_store :: "real \<Rightarrow> particle_store" where
  "example_store s0 =
     \<lparr> n_local = 5,
       position = example_position,
       displacement = (\<lambda>i. scale3 s0 (example_position i)),
       volume = (\<lambda>p. 1 / 8),
       force = (\<lambda>p. (0, 0, 0)),
       strain_energy_density = (\<lambda>p. 0),
       dilatation = (\<lambda>p. 0),
       weighted_volume = (\<lambda>p. 0) \<rparr>"

definition example_neighbors :: neighbor_enumeration where
  "example_neighbors p = (if p = 0 then [1, 2, 3, 4] else if p \<le> 4 then [0] else [])"

text \<open>
  The displacement field that moves particle 1 by one unit along the x axis, which
  stretches its bond with the centre particle to twice its length, and the store and
  tracker after one evaluation cycle of the small configuration under it.
\<close>

definition example_break :: "nat \<Rightarrow> vec3" where
  "example_break i = (if i = 1 then (1, 0, 0) else (0, 0, 0))"

definition example_broken :: "particle_store \<times> bond_tracker" where
  "example_broken =
     computeForce example_model example_neighbors
       ((example_store 0)\<lparr> displacement := example_break \<rparr>, initialize example_neighbors)"





text \<open>
  Three particles of volume 1 whose strain-energy densities \<open>2\<^sup>5\<^sup>3\<close>, 1 and \<open>- 2\<^sup>5\<^sup>3\<close>
  add up to 1, in the binary64 reading.
\<close>

definition cancelling_store :: "double particle_fields" where
  "cancelling_store =
     \<lparr> n_local = 3,
       position = (\<lambda>p. (Finite 0, Finite 0, Finite 0)),
       displacement = (\<lambda>p. (Finite 0, Finite 0, Finite 0)),
       volume = (\<lambda>p. Finite 1),
       force = (\<lambda>p. (Finite 0, Finite 0, Finite 0)),
       strain_energy_density = (\<lambda>p.
          if p = 0 then Finite (2 ^ 53) else if p = 1 then Finite 1 else Finite (- (2 ^ 53))),
       dilatation = (\<lambda>p. Finite 0),
       weighted_volume = (\<lambda>p. Finite 0) \<rparr>"

section \<open>The contact model\<close>





text \<open>
  Claim C4. For a horizon other than zero, the constructor stores the stiffness
  \<open>c = 18 K / (pi delta^4)\<close>, and \<open>forceCoeff\<close> returns
  \<open>15 c ((r - Rc) / delta) vol\<close> for every \<open>r\<close> and \<open>vol\<close>.
\<close>

theorem NormalRepulsionModel_stiffness:
  assumes "d \<noteq> 0"
  shows "c (NormalRepulsionModel d rc k) = 18 * k / (pi * d ^ 4)
       \<and> delta (NormalRepulsionModel d rc k) = d
       \<and> Rc (NormalRepulsionModel d rc k) = rc
       \<and> K (NormalRepulsionModel d rc k) = k
       \<and> forceCoeff (NormalRepulsionModel d rc k) r vol
           = 15 * (18 * k / (pi * d ^ 4)) * ((r - rc) / d) * vol"
  by (simp add: forceCoeff_def NormalRepulsionModel_def power4_eq_xxxx mult.assoc)

theorem NormalRepulsionModel_stiffness_witness:
  "(2::real) \<noteq> 0
   \<and> c (NormalRepulsionModel 2 1 1) = 18 * 1 / (pi * 2 ^ 4)
   \<and> forceCoeff (NormalRepulsionModel 2 1 1) 3 5
       = 15 * (18 * 1 / (pi * 2 ^ 4)) * ((3 - 1) / 2) * 5"
  using NormalRepulsionModel_stiffness [of 2 1 1 3 5] by simp

text \<open>
  Claim C5, as the code has it. The constructor validates nothing: for every horizon,
  contact radius and \<open>K\<close> the construction succeeds, and the object stores the three
  arguments as given.
\<close>

theorem construct_NormalRepulsionModel_total:
  "construct_NormalRepulsionModel d rc k = Inr (NormalRepulsionModel d rc k)
   \<and> delta (NormalRepulsionModel d rc k) = d
   \<and> Rc (NormalRepulsionModel d rc k) = rc
   \<and> K (NormalRepulsionModel d rc k) = k"
  by (simp add: construct_NormalRepulsionModel_def NormalRepulsionModel_def)

text \<open>
  Claim C5 as the specification words it fails: horizon - 1, contact radius 2 and
  \<open>K = - 3\<close> are a configuration error on all three counts, and the construction yields
  a model object.
\<close>

theorem construct_NormalRepulsionModel_counterexample:
  "configuration_error (- 1) 2 (- 3)
   \<and> construct_NormalRepulsionModel (- 1) 2 (- 3)
       = Inr \<lparr> delta = - 1, Rc = 2, c = - (54 / pi), K = - 3 \<rparr>"
  by (simp add: configuration_error_def construct_NormalRepulsionModel_def
      NormalRepulsionModel_def)

section \<open>Tags\<close>

text \<open>
  Claim C9. The fracture tag of the normal-repulsion model is \<open>NoFracture\<close>, the model
  is a contact model, and no other class is.
\<close>

theorem is_contact_only_NormalRepulsionModel:
  "fracture_type NormalRepulsionModel_class = Some NoFracture
   \<and> is_contact NormalRepulsionModel_class
   \<and> (\<forall>M. M \<noteq> NormalRepulsionModel_class \<longrightarrow> \<not> is_contact M)"
proof -
  have "\<not> is_contact M" if "M \<noteq> NormalRepulsionModel_class" for M
    using that by (cases M) simp_all
  then show ?thesis by simp
qed

theorem is_contact_only_NormalRepulsionModel_witness:
  "PMBModel_class \<noteq> NormalRepulsionModel_class \<and> \<not> is_contact PMBModel_class
   \<and> LPSModel_class \<noteq> NormalRepulsionModel_class \<and> \<not> is_contact LPSModel_class"
  using is_contact_only_NormalRepulsionModel by simp

section \<open>The reference bond loops\<close>

lemma foldl_guard:
  "foldl (\<lambda>a x. if P x then f a x else a) a xs = foldl f a (filter P xs)"
  by (induction xs arbitrary: a) simp_all

lemma foldl_guard_rule:
  assumes "\<And>a x. g a x = (if P x then f a x else a)"
  shows "foldl g a xs = foldl f a (filter P xs)"
  by (induction xs arbitrary: a) (simp_all add: assms)

lemma LPS_weighted_volume_loop:
  "reference_weighted_volume del dx vol m =
     foldl (\<lambda>wv ijk.
              wv + 1 / bond_length dx ijk * bond_length dx ijk * bond_length dx ijk * vol) 0
           (visited_bonds del dx m)"
  by (simp add: reference_weighted_volume_def visited_bonds_def Let_def foldl_guard)

lemma LPS_theta_loop:
  "reference_theta del dx vol wv s0 m =
     foldl (\<lambda>(theta, n) ijk.
              (theta + 3 / wv * 1 / bond_length dx ijk * s0 * bond_length dx ijk *
                 bond_length dx ijk * vol,
               n + 1)) (0, 0)
           (visited_bonds del dx m)"
  unfolding reference_theta_def visited_bonds_def Let_def
  by (rule foldl_guard_rule) (simp add: split_def)

text \<open>
  The dilatation of the reference calculation: with the weighted volume of the first
  loop nest, the second loop nest yields \<open>3 s0\<close> and the number of visited bonds. This
  is the value the test expects of the kernel's dilatation field.
\<close>

lemma weighted_volume_fold:
  fixes a :: real
  assumes "\<forall>x \<in> set xs. 0 < bond_length dx x"
  shows "foldl (\<lambda>wv ijk.
            wv + 1 / bond_length dx ijk * bond_length dx ijk * bond_length dx ijk * vol) a xs
       = a + sum_list (map (\<lambda>x. bond_length dx x * vol) xs)"
  using assms by (induction xs arbitrary: a) (simp_all add: add.assoc)

lemma theta_fold:
  fixes t n :: real
  assumes "\<forall>x \<in> set xs. 0 < bond_length dx x"
  shows "foldl (\<lambda>(theta, n) ijk.
              (theta + 3 / wv * 1 / bond_length dx ijk * s0 * bond_length dx ijk *
                 bond_length dx ijk * vol,
               n + 1)) (t, n) xs
       = (t + 3 * s0 / wv * sum_list (map (\<lambda>x. bond_length dx x * vol) xs),
          n + of_nat (length xs))"
  using assms
  by (induction xs arbitrary: t n) (simp_all add: algebra_simps)

lemma visited_positive: "\<forall>x \<in> set (visited_bonds del dx m). 0 < bond_length dx x"
  by (simp add: visited_bonds_def)

lemma reference_theta_uniform:
  assumes "reference_weighted_volume del dx vol m \<noteq> 0"
  shows "reference_theta del dx vol (reference_weighted_volume del dx vol m) s0 m
       = (3 * s0, of_nat (length (visited_bonds del dx m)))"
proof -
  let ?S = "sum_list (map (\<lambda>x. bond_length dx x * vol) (visited_bonds del dx m))"
  have wv: "reference_weighted_volume del dx vol m = ?S"
    unfolding LPS_weighted_volume_loop
    by (subst weighted_volume_fold [OF visited_positive]) simp
  have "reference_theta del dx vol ?S s0 m
       = (3 * s0 / ?S * ?S, of_nat (length (visited_bonds del dx m)))"
    unfolding LPS_theta_loop
    by (subst theta_fold [OF visited_positive]) simp
  then show ?thesis
    using assms by (simp add: wv)
qed

section \<open>Bond geometry under a uniform stretch field\<close>

lemma norm3_scale3: "norm3 (scale3 a v) = \<bar>a\<bar> * norm3 v"
proof (cases v)
  case (fields v1 v2 v3)
  have "a * v1 * (a * v1) + a * v2 * (a * v2) + a * v3 * (a * v3)
      = a\<^sup>2 * (v1 * v1 + v2 * v2 + v3 * v3)"
    by (simp add: power2_eq_square algebra_simps)
  then show ?thesis
    by (simp add: fields norm3_def scale3_def real_sqrt_mult)
qed

lemma norm3_neg3: "norm3 (neg3 v) = norm3 v"
  by (cases v) (simp add: norm3_def neg3_def)


lemma uniform_current_vector:
  assumes "displacement P = (\<lambda>i. scale3 s0 (position P i))"
  shows "current_vector P p q = scale3 (1 + s0) (reference_vector P p q)"
  by (cases "position P p"; cases "position P q")
     (simp add: current_vector_def reference_vector_def assms add3_def sub3_def scale3_def
        algebra_simps)


section \<open>The bond-state tracker\<close>

lemma evaluateBonds_keeps_broken:
  assumes "is_broken T p slot" and "slot < length (neigh p)"
  shows "is_broken (evaluateBonds M neigh T P) p slot"
  using assms
  by (simp add: is_broken_def evaluateBonds_def evaluate_bond_def)

lemma computeForce_tracker:
  "\<exists>P2. snd (computeForce M neigh (P, T))
          = (\<lambda>p. if p < n_local P then evaluateBonds M neigh T P2 p else T p)"
  by (simp add: computeForce_def Let_def) blast

lemma computeForce_keeps_broken:
  assumes "is_broken T p slot" and "slot < length (neigh p)"
  shows "is_broken (snd (computeForce M neigh (P, T))) p slot"
proof -
  obtain P2 where "snd (computeForce M neigh (P, T))
          = (\<lambda>p. if p < n_local P then evaluateBonds M neigh T P2 p else T p)"
    using computeForce_tracker by blast
  then show ?thesis
    using assms evaluateBonds_keeps_broken [of T p slot neigh M P2]
    by (simp add: is_broken_def)
qed

lemma run_cycles_keeps_broken:
  assumes "is_broken (snd PT) p slot" and "slot < length (neigh p)"
  shows "is_broken (snd (run_cycles M neigh us PT)) p slot"
  using assms(1)
proof (induction us arbitrary: PT)
  case Nil
  then show ?case
    by simp
next
  case (Cons u us)
  have "is_broken (snd (computeForce M neigh ((fst PT)\<lparr>displacement := u\<rparr>, snd PT))) p slot"
    using Cons.prems assms(2) by (rule computeForce_keeps_broken)
  then show ?case
    by (simp add: Cons.IH)
qed

lemma broken_terms:
  "weighted_volume_term M Q p (q, Broken) = 0"
  "dilatation_term M Q p (q, Broken) = 0"
  "force_term M Q p (q, Broken) = (0, 0, 0)"
  "energy_term M Q p (q, Broken) = 0"
  by (simp_all add: weighted_volume_term_def dilatation_term_def force_term_def
      energy_term_def evaluate_bond_def)

text \<open>
  The bonds of an owner when one slot is deleted from the enumeration and the tracker,
  and what the passes sum over them.
\<close>

lemma zip_delete:
  assumes "slot < length xs" and "slot < length ys"
  shows "zip (take slot xs @ drop (Suc slot) xs) (take slot ys @ drop (Suc slot) ys)
       = take slot (zip xs ys) @ drop (Suc slot) (zip xs ys)"
  using assms by (simp add: take_zip drop_zip)

lemma bonds_delete_other:
  "p' \<noteq> p \<Longrightarrow> bonds (delete_slot p slot neigh) (delete_slot p slot T) p' = bonds neigh T p'"
  by (simp add: bonds_def delete_slot_def)

lemma bonds_split:
  assumes "slot < length (neigh p)" and "slot < length (T p)"
  shows "bonds neigh T p
       = filter (\<lambda>(q, st). q \<noteq> p) (take slot (zip (neigh p) (T p)))
         @ filter (\<lambda>(q, st). q \<noteq> p) [(neigh p ! slot, T p ! slot)]
         @ filter (\<lambda>(q, st). q \<noteq> p) (drop (Suc slot) (zip (neigh p) (T p)))"
proof -
  let ?z = "zip (neigh p) (T p)"
  have "slot < length ?z" using assms by simp
  then have "?z = take slot ?z @ ?z ! slot # drop (Suc slot) ?z"
    by (rule id_take_nth_drop)
  moreover have "?z ! slot = (neigh p ! slot, T p ! slot)"
    using assms by simp
  ultimately have "?z = take slot ?z @ [(neigh p ! slot, T p ! slot)] @ drop (Suc slot) ?z"
    by (simp only: append_Cons append_Nil)
  then have "filter (\<lambda>(q, st). q \<noteq> p) ?z
       = filter (\<lambda>(q, st). q \<noteq> p) (take slot ?z @ [(neigh p ! slot, T p ! slot)] @ drop (Suc slot) ?z)"
    by simp
  then show ?thesis
    unfolding bonds_def by (simp only: filter_append)
qed

lemma bonds_delete_same:
  assumes "slot < length (neigh p)" and "slot < length (T p)"
  shows "bonds (delete_slot p slot neigh) (delete_slot p slot T) p
       = filter (\<lambda>(q, st). q \<noteq> p) (take slot (zip (neigh p) (T p)))
         @ filter (\<lambda>(q, st). q \<noteq> p) (drop (Suc slot) (zip (neigh p) (T p)))"
proof -
  have "bonds (delete_slot p slot neigh) (delete_slot p slot T) p
      = filter (\<lambda>(q, st). q \<noteq> p)
          (zip (take slot (neigh p) @ drop (Suc slot) (neigh p))
               (take slot (T p) @ drop (Suc slot) (T p)))"
    by (simp only: bonds_def delete_slot_def fun_upd_same)
  also have "\<dots> = filter (\<lambda>(q, st). q \<noteq> p)
          (take slot (zip (neigh p) (T p)) @ drop (Suc slot) (zip (neigh p) (T p)))"
    by (simp only: zip_delete [where xs = "neigh p" and ys = "T p" and slot = slot, OF assms])
  finally show ?thesis
    by (simp only: filter_append)
qed

lemma sum_list_delete:
  fixes f :: "nat \<times> bond_state \<Rightarrow> real"
  assumes "is_broken T p slot" and "slot < length (neigh p)"
    and "\<And>q. f (q, Broken) = 0"
  shows "sum_list (map f (bonds (delete_slot p slot neigh) (delete_slot p slot T) p'))
       = sum_list (map f (bonds neigh T p'))"
proof (cases "p' = p")
  case False
  then show ?thesis by (simp add: bonds_delete_other)
next
  case True
  have s: "slot < length (T p)" "T p ! slot = Broken"
    using assms(1) by (simp_all add: is_broken_def)
  show ?thesis
    unfolding True
      bonds_delete_same [where neigh = neigh and T = T and p = p and slot = slot, OF assms(2) s(1)]
      bonds_split [where neigh = neigh and T = T and p = p and slot = slot, OF assms(2) s(1)]
    by (simp add: s(2) assms(3))
qed

lemma sum3_append: "sum3 (xs @ ys) = add3 (sum3 xs) (sum3 ys)"
  by (induction xs) (simp_all add: add3_def split_def)

lemma sum3_delete:
  assumes "is_broken T p slot" and "slot < length (neigh p)"
    and "\<And>q. f (q, Broken) = (0, 0, 0)"
  shows "sum3 (map f (bonds (delete_slot p slot neigh) (delete_slot p slot T) p'))
       = sum3 (map f (bonds neigh T p'))"
proof (cases "p' = p")
  case False
  then show ?thesis by (simp add: bonds_delete_other)
next
  case True
  have s: "slot < length (T p)" "T p ! slot = Broken"
    using assms(1) by (simp_all add: is_broken_def)
  show ?thesis
    unfolding True
      bonds_delete_same [where neigh = neigh and T = T and p = p and slot = slot, OF assms(2) s(1)]
      bonds_split [where neigh = neigh and T = T and p = p and slot = slot, OF assms(2) s(1)]
    by (simp add: s(2) assms(3) sum3_append add3_def split_def)
qed

lemma passes_delete:
  assumes "is_broken T p slot" and "slot < length (neigh p)"
  shows "computeWeightedVolume M (delete_slot p slot neigh) (delete_slot p slot T) Q p'
           = computeWeightedVolume M neigh T Q p'"
    and "computeDilatation M (delete_slot p slot neigh) (delete_slot p slot T) Q p'
           = computeDilatation M neigh T Q p'"
    and "computeForceFull M (delete_slot p slot neigh) (delete_slot p slot T) Q p'
           = computeForceFull M neigh T Q p'"
    and "computeStrainEnergyDensity M (delete_slot p slot neigh) (delete_slot p slot T) Q p'
           = computeStrainEnergyDensity M neigh T Q p'"
  unfolding computeWeightedVolume_def computeDilatation_def computeForceFull_def
    computeStrainEnergyDensity_def
  by (rule sum_list_delete [where T = T and p = p and slot = slot and neigh = neigh, OF assms]
      sum3_delete [where T = T and p = p and slot = slot and neigh = neigh, OF assms],
      rule broken_terms)+

lemma passes_delete_fun:
  assumes "is_broken T p slot" and "slot < length (neigh p)"
  shows "computeWeightedVolume M (delete_slot p slot neigh) (delete_slot p slot T)
           = computeWeightedVolume M neigh T"
    and "computeDilatation M (delete_slot p slot neigh) (delete_slot p slot T)
           = computeDilatation M neigh T"
    and "computeForceFull M (delete_slot p slot neigh) (delete_slot p slot T)
           = computeForceFull M neigh T"
    and "computeStrainEnergyDensity M (delete_slot p slot neigh) (delete_slot p slot T)
           = computeStrainEnergyDensity M neigh T"
  by (intro ext,
      rule passes_delete [where T = T and p = p and slot = slot and neigh = neigh, OF assms])+

lemma evaluateBonds_delete:
  assumes "is_broken T p slot" and "slot < length (neigh p)"
  shows "evaluateBonds M (delete_slot p slot neigh) (delete_slot p slot T) Q p'
       = delete_slot p slot (evaluateBonds M neigh T Q) p'"
proof -
  have s: "slot < length (T p)"
    using assms(1) by (simp add: is_broken_def)
  show ?thesis
  proof (cases "p' = p")
    case False
    then show ?thesis by (simp add: evaluateBonds_def delete_slot_def)
  next
    case True
    have "evaluateBonds M (delete_slot p slot neigh) (delete_slot p slot T) Q p
        = map (\<lambda>(q, st). if q = p then st else evaluate_bond M Q p (q, st))
            (zip (take slot (neigh p) @ drop (Suc slot) (neigh p))
                 (take slot (T p) @ drop (Suc slot) (T p)))"
      by (simp only: evaluateBonds_def delete_slot_def fun_upd_same)
    also have "\<dots> = map (\<lambda>(q, st). if q = p then st else evaluate_bond M Q p (q, st))
            (take slot (zip (neigh p) (T p)) @ drop (Suc slot) (zip (neigh p) (T p)))"
      by (simp only: zip_delete [where xs = "neigh p" and ys = "T p" and slot = slot,
            OF assms(2) s])
    also have "\<dots> = delete_slot p slot (evaluateBonds M neigh T Q) p"
      by (simp add: evaluateBonds_def delete_slot_def take_map drop_map)
    finally show ?thesis
      unfolding True .
  qed
qed

lemma tracker_delete:
  "(\<lambda>p'. if p' < n then delete_slot p slot E p' else delete_slot p slot T p')
      = delete_slot p slot (\<lambda>p'. if p' < n then E p' else T p')"
  by (rule ext) (simp add: delete_slot_def)

lemma computeForce_delete:
  assumes "is_broken T p slot" and "slot < length (neigh p)"
  shows "computeForce M (delete_slot p slot neigh) (P, delete_slot p slot T)
       = (fst (computeForce M neigh (P, T)), delete_slot p slot (snd (computeForce M neigh (P, T))))"
  apply (simp only: computeForce_def split_conv Let_def)
  apply (simp only:
      passes_delete_fun [where T = T and p = p and slot = slot and neigh = neigh, OF assms]
      evaluateBonds_delete [where T = T and p = p and slot = slot and neigh = neigh, OF assms])
  apply (simp add: tracker_delete)
  done

lemma run_cycles_delete:
  assumes "is_broken T p slot" and "slot < length (neigh p)"
  shows "run_cycles M (delete_slot p slot neigh) us (P, delete_slot p slot T)
       = (fst (run_cycles M neigh us (P, T)),
          delete_slot p slot (snd (run_cycles M neigh us (P, T))))"
  using assms(1)
proof (induction us arbitrary: P T)
  case Nil
  then show ?case by simp
next
  case (Cons u us)
  let ?PT = "computeForce M neigh (P\<lparr>displacement := u\<rparr>, T)"
  have b: "is_broken (snd ?PT) p slot"
    using Cons.prems assms(2) by (rule computeForce_keeps_broken)
  have "run_cycles M (delete_slot p slot neigh) (u # us) (P, delete_slot p slot T)
      = run_cycles M (delete_slot p slot neigh) us (fst ?PT, delete_slot p slot (snd ?PT))"
    by (simp add: computeForce_delete [where T = T and p = p and slot = slot and neigh = neigh,
          OF Cons.prems assms(2)])
  also have "\<dots> = (fst (run_cycles M neigh us (fst ?PT, snd ?PT)),
          delete_slot p slot (snd (run_cycles M neigh us (fst ?PT, snd ?PT))))"
    using Cons.IH [of "snd ?PT" "fst ?PT"] b by simp
  finally show ?case by simp
qed

text \<open>
  Claim C2. A bond that is broken stays broken through any number of further evaluation
  cycles, and in each of them it contributes nothing: every field the cycles write
  (force, strain-energy density, dilatation and weighted volume of every particle) is
  what the same cycles write when the bond is not enumerated at all, and the other slots
  of the tracker evolve as they do without it. This holds for every model, so for every
  fracture-capable one.
\<close>

theorem broken_bond_excluded_from_cycles:
  assumes "is_broken T p slot" and "slot < length (neigh p)"
  shows "is_broken (snd (run_cycles M neigh us (P, T))) p slot
       \<and> fst (run_cycles M neigh us (P, T))
           = fst (run_cycles M (delete_slot p slot neigh) us (P, delete_slot p slot T))
       \<and> delete_slot p slot (snd (run_cycles M neigh us (P, T)))
           = snd (run_cycles M (delete_slot p slot neigh) us (P, delete_slot p slot T))"
proof -
  have "is_broken (snd (run_cycles M neigh us (P, T))) p slot"
    by (rule run_cycles_keeps_broken) (use assms in simp_all)
  then show ?thesis
    by (simp add: run_cycles_delete [where T = T and p = p and slot = slot and neigh = neigh,
          OF assms])
qed

lemma example_lengths:
  "q \<in> {1, 2, 3, 4} \<Longrightarrow> norm3 (sub3 (example_position q) (example_position 0)) = 1"
  by (auto simp: example_position_def sub3_def norm3_def)

lemma example_broken_tracker:
  "snd example_broken 0 = [Broken, Intact, Intact, Intact]"
  by (simp add: example_broken_def computeForce_def Let_def example_model_def
      example_store_def example_neighbors_def initialize_def evaluateBonds_def
      evaluate_bond_def exceeds_critical_def bond_stretch_def current_length_def
      reference_length_def current_vector_def reference_vector_def example_position_def
      example_break_def add3_def sub3_def norm3_def numeral_eq_Suc)

lemma example_broken_store:
  "n_local (fst example_broken) = 5"
  "position (fst example_broken) = example_position"
  "volume (fst example_broken) = (\<lambda>p. 1 / 8)"
  "weighted_volume (fst example_broken) 0 = 1 / 2"
  by (simp_all add: example_broken_def computeForce_def Let_def example_model_def
      example_store_def example_neighbors_def initialize_def
      computeWeightedVolume_def weighted_volume_term_def bonds_def
      reference_length_def reference_vector_def example_position_def
      sub3_def norm3_def numeral_eq_Suc)

text \<open>
  The small configuration after a cycle in which the bond from the centre particle to
  particle 1 was stretched to twice its length: the bond is broken; that cycle's
  weighted volume of the centre particle, computed before the bond broke, is 1/2; after
  a further cycle the bond is still broken and the weighted volume is 3/8, the sum over
  the three other bonds.
\<close>

theorem broken_bond_excluded_from_cycles_witness:
  "is_broken (snd example_broken) 0 0
   \<and> 0 < length (example_neighbors 0)
   \<and> weighted_volume (fst example_broken) 0 = 1 / 2
   \<and> is_broken (snd (run_cycles example_model example_neighbors [\<lambda>i. (0, 0, 0)] example_broken)) 0 0
   \<and> weighted_volume
        (fst (run_cycles example_model example_neighbors [\<lambda>i. (0, 0, 0)] example_broken)) 0
      = 3 / 8"
proof -
  have h1: "is_broken (snd example_broken) 0 0"
    by (simp add: is_broken_def example_broken_tracker)
  have h2: "0 < length (example_neighbors 0)"
    by (simp add: example_neighbors_def)
  have d: "bonds (delete_slot 0 0 example_neighbors) (delete_slot 0 0 (snd example_broken)) 0
      = [(2, Intact), (3, Intact), (4, Intact)]"
    by (simp add: bonds_def delete_slot_def example_broken_tracker example_neighbors_def)
  have w: "weighted_volume (fst (run_cycles example_model (delete_slot 0 0 example_neighbors)
        [\<lambda>i. (0, 0, 0)] (fst example_broken, delete_slot 0 0 (snd example_broken)))) 0 = 3 / 8"
    by (simp add: computeForce_def Let_def example_broken_store computeWeightedVolume_def d
        weighted_volume_term_def reference_length_def reference_vector_def
        example_lengths)
       (simp add: example_model_def)
  from broken_bond_excluded_from_cycles [of "snd example_broken" 0 0 example_neighbors example_model
      "[\<lambda>i. (0, 0, 0)]" "fst example_broken"] h1 h2 w example_broken_store(4)
  show ?thesis
    by simp
qed

section \<open>The bond loop\<close>










section \<open>Symmetry of the force under uniform dilation\<close>

lemma sum3_components:
  "fst (sum3 vs) = sum_list (map fst vs)"
  "fst (snd (sum3 vs)) = sum_list (map (\<lambda>v. fst (snd v)) vs)"
  "snd (snd (sum3 vs)) = sum_list (map (\<lambda>v. snd (snd v)) vs)"
  by (induction vs) (simp_all add: add3_def split_def)

lemma odd_sum_symmetric:
  fixes g :: "'a \<Rightarrow> real"
  assumes sym: "mset (map h xs) = mset xs"
    and odd: "\<And>x. g (h x) = - g x"
  shows "sum_list (map g xs) = 0"
proof -
  have "sum_list (map g xs) = sum_list (map g (map h xs))"
    using sym by (metis mset_map sum_mset_sum_list)
  also have "\<dots> = sum_list (map (\<lambda>x. - g x) xs)"
    by (simp add: comp_def odd)
  also have "\<dots> = - sum_list (map g xs)"
    by (induction xs) simp_all
  finally show ?thesis
    by simp
qed

lemma force_term_uniform:
  assumes pos: "position P' = position P" and disp: "displacement P' = displacement P"
    and vol: "volume P' = volume P"
    and uniform: "displacement P = (\<lambda>i. scale3 s0 (position P i))"
  shows "force_term M P' p (q, st)
       = uniform_force_term M s0 (dilatation P' p) (weighted_volume P' p)
           (reference_vector P p q, volume P q, st)"
proof -
  have rv: "reference_vector P' p q = reference_vector P p q"
    by (simp add: reference_vector_def pos)
  have cv: "current_vector P' p q = scale3 (1 + s0) (reference_vector P p q)"
    using uniform_current_vector [OF uniform, of p q]
    by (simp add: current_vector_def pos disp)
  have cl: "current_length P' p q = \<bar>1 + s0\<bar> * norm3 (reference_vector P p q)"
    by (simp add: current_length_def cv norm3_scale3)
  have rl: "reference_length P' p q = norm3 (reference_vector P p q)"
    by (simp add: reference_length_def rv)
  show ?thesis
    by (simp add: force_term_def uniform_force_term_def evaluate_bond_def bond_stretch_def
        cv cl rl vol Let_def)
qed

lemma uniform_force_term_mirror:
  assumes "\<forall>v r xi vol th m.
      forceCoefficient M (neg3 v) r xi vol th m = forceCoefficient M v r xi vol th m"
  shows "uniform_force_term M s0 th m (mirror_bond b) = neg3 (uniform_force_term M s0 th m b)"
proof (cases b)
  case (fields v vol st)
  have "scale3 a (neg3 w) = neg3 (scale3 a w)" for a w
    by (cases w) (simp add: scale3_def neg3_def)
  then show ?thesis
    by (simp add: fields uniform_force_term_def mirror_bond_def norm3_neg3 assms)
       (simp add: neg3_def)
qed

lemma computeForce_force:
  assumes "p < n_local P"
  shows "\<exists>P2. force (fst (computeForce M neigh (P, T))) p = computeForceFull M neigh T P2 p
            \<and> position P2 = position P \<and> displacement P2 = displacement P
            \<and> volume P2 = volume P"
proof (cases "isStateBased M")
  case True
  show ?thesis
    apply (simp add: computeForce_def Let_def assms True)
    apply (rule exI, rule conjI, rule refl)
    apply simp
    done
next
  case False
  show ?thesis
    apply (simp add: computeForce_def Let_def assms False)
    apply (rule exI, rule conjI, rule refl)
    apply simp
    done
qed

text \<open>
  Claim C7. Under a uniform dilation \<open>u = s0 x\<close> with \<open>s0 \<noteq> - 1\<close>, for a local particle
  with a fully populated neighbourhood, none of whose neighbours sits at the particle's
  own position, and a model whose force coefficient does not change when the bond vector
  is reversed: after the force evaluation the y and the z component of the particle's
  force are zero, so that the test's checks \<open>EXPECT_LE( fy, 1e-13 )\<close> and
  \<open>EXPECT_LE( fz, 1e-13 )\<close> pass.
\<close>

theorem lateral_force_zero_uniform_dilation:
  assumes "p < n_local P"
    and "displacement P = (\<lambda>i. scale3 s0 (position P i))"
    and "s0 \<noteq> - 1"
    and "\<forall>q \<in> set (neigh p). position P q \<noteq> position P p"
    and "\<forall>v r xi vol th m.
      forceCoefficient M (neg3 v) r xi vol th m = forceCoefficient M v r xi vol th m"
    and "fully_populated P neigh T p"
  shows "fst (snd (force (fst (computeForce M neigh (P, T))) p)) = 0
       \<and> snd (snd (force (fst (computeForce M neigh (P, T))) p)) = 0
       \<and> EXPECT_LE (fst (snd (force (fst (computeForce M neigh (P, T))) p))) (1 / 10 ^ 13)
       \<and> EXPECT_LE (snd (snd (force (fst (computeForce M neigh (P, T))) p))) (1 / 10 ^ 13)"
proof -
  obtain P2 where P2: "force (fst (computeForce M neigh (P, T))) p
        = computeForceFull M neigh T P2 p"
    and fr: "position P2 = position P" "displacement P2 = displacement P"
      "volume P2 = volume P"
    using computeForce_force [OF assms(1)] by blast
  let ?G = "uniform_force_term M s0 (dilatation P2 p) (weighted_volume P2 p)"
  have "map (force_term M P2 p) (bonds neigh T p) = map ?G (neighbourhood P neigh T p)"
    by (simp add: neighbourhood_def split_def force_term_uniform [OF fr assms(2), symmetric]
        comp_def)
  then have F: "force (fst (computeForce M neigh (P, T))) p
        = sum3 (map ?G (neighbourhood P neigh T p))"
    by (simp add: P2 computeForceFull_def)
  have sym: "mset (map mirror_bond (neighbourhood P neigh T p))
        = mset (neighbourhood P neigh T p)"
    using assms(6) by (simp add: fully_populated_def)
  have "sum_list (map (\<lambda>b. fst (snd (?G b))) (neighbourhood P neigh T p)) = 0"
    by (rule odd_sum_symmetric [OF sym])
       (simp add: uniform_force_term_mirror [OF assms(5)] neg3_def split_def)
  moreover have "sum_list (map (\<lambda>b. snd (snd (?G b))) (neighbourhood P neigh T p)) = 0"
    by (rule odd_sum_symmetric [OF sym])
       (simp add: uniform_force_term_mirror [OF assms(5)] neg3_def split_def)
  ultimately show ?thesis
    by (simp add: F sum3_components comp_def EXPECT_LE_def)
qed

lemma example_fully_populated:
  "fully_populated (example_store s0) example_neighbors (initialize example_neighbors) 0"
  by (simp add: fully_populated_def neighbourhood_def bonds_def initialize_def
      example_neighbors_def example_store_def example_position_def reference_vector_def
      mirror_bond_def neg3_def sub3_def numeral_eq_Suc)

text \<open>
  The small configuration with stretch 1/10: the centre particle's neighbourhood is
  fully populated, and the lateral components of its force vanish.
\<close>

theorem lateral_force_zero_uniform_dilation_witness:
  "(0::nat) < n_local (example_store (1 / 10))
   \<and> displacement (example_store (1 / 10))
       = (\<lambda>i. scale3 (1 / 10) (position (example_store (1 / 10)) i))
   \<and> (1 / 10 :: real) \<noteq> - 1
   \<and> fully_populated (example_store (1 / 10)) example_neighbors
        (initialize example_neighbors) 0
   \<and> fst (snd (force (fst (computeForce example_model example_neighbors
        (example_store (1 / 10), initialize example_neighbors))) 0)) = 0
   \<and> snd (snd (force (fst (computeForce example_model example_neighbors
        (example_store (1 / 10), initialize example_neighbors))) 0)) = 0"
proof -
  let ?P = "example_store (1 / 10)"
  have h1: "(0::nat) < n_local ?P"
    by (simp add: example_store_def)
  have h2: "displacement ?P = (\<lambda>i. scale3 (1 / 10) (position ?P i))"
    by (simp add: example_store_def)
  have h3: "(1 / 10 :: real) \<noteq> - 1"
    by simp
  have h4: "\<forall>q \<in> set (example_neighbors 0). position ?P q \<noteq> position ?P 0"
    by (simp add: example_neighbors_def example_store_def example_position_def)
  have h5: "\<forall>v r xi vol th m.
      forceCoefficient example_model (neg3 v) r xi vol th m
        = forceCoefficient example_model v r xi vol th m"
    by (simp add: example_model_def)
  note h6 = example_fully_populated [of "1 / 10"]
  from lateral_force_zero_uniform_dilation [OF h1 h2 h3 h4 h5 h6] h1 h2 h3 h6
  show ?thesis
    by blast
qed

end
